theory Spec2Isabelle
  imports Main
begin

section \<open>Requests, responses and errors\<close>

text \<open>
  The file \<^verbatim>\<open>zds/mp/api/views.py\<close> declares two key constructors and two view
  classes over a web framework's generic views. The views read four things of a request:
  \<^verbatim>\<open>request.method\<close>, \<^verbatim>\<open>request.user\<close>, \<^verbatim>\<open>request.data\<close> and (through the
  framework) the URL keyword arguments. The remaining fields are what the framework's
  filters and the caching library's key bits read.
\<close>

datatype request_user = AnonymousUser | User int

fun is_authenticated :: "request_user \<Rightarrow> bool" where
  "is_authenticated AnonymousUser = False"
| "is_authenticated (User i) = True"

text \<open>\<^verbatim>\<open>request.user.id\<close>: the anonymous user has no identifier (Python's \<^verbatim>\<open>None\<close>).\<close>

fun user_id :: "request_user \<Rightarrow> int option" where
  "user_id AnonymousUser = None"
| "user_id (User i) = Some i"

section \<open>Query sets\<close>

text \<open>
  A query set is a lazy description of a query; the database is read when the query set
  is iterated. The three manager calls of the source are kept as they are written:
  \<^verbatim>\<open>PrivateTopic.objects.all()\<close>,
  \<^verbatim>\<open>PrivateTopic.objects.get_private_topics_of_user(user_id)\<close> and
  \<^verbatim>\<open>PrivateTopic.objects.get_private_topics_selected(user_id, pks)\<close>. The manager's code is
  not in the source, so what a query returns is a parameter (\<open>evaluate\<close> below).
  \<open>backend_filtered\<close> is a filter backend applied by the framework with the view's fields
  and the request's terms; \<open>lookup\<close> is the framework's lookup of one object by a URL
  keyword argument.
\<close>

datatype filter_backend = SearchFilter | OrderingFilter

datatype queryset =
    objects_all
  | get_private_topics_of_user "int option"
  | get_private_topics_selected "int option" "string list"
  | backend_filtered filter_backend "string list" "string list" queryset
  | lookup string string queryset

text \<open>
  A cache key, which is also the value of an \<^verbatim>\<open>ETag\<close>: the data of each key bit, by
  attribute name. The data of a bit is a text, the values of some request parameters, or
  the SQL text of a query, which stands here as the query it is the text of.
\<close>

datatype bit_data = Text string | Values "string list" | Sql queryset

type_synonym cache_key = "(string \<times> bit_data) list"

text \<open>
  A multi-valued form (the framework's \<^verbatim>\<open>QueryDict\<close>) is a list of key/value pairs.
  \<^verbatim>\<open>request.data\<close> is a \<^verbatim>\<open>QueryDict\<close> when the body of the request is a form; for
  any other body (JSON, or none) it is a plain Python dictionary, which has no
  \<^verbatim>\<open>getlist\<close>. The file restricts the parsers of neither view, so both can arrive.
\<close>

type_synonym query_dict = "(string \<times> string) list"

datatype request_body = QueryDict query_dict | Dict "(string \<times> string) list"

record request =
  request_method :: string
  user :: request_user
  request_data :: request_body
  query_params :: query_dict
  url_kwargs :: "(string \<times> string) list"
  accepted_format :: string
  language :: string
  if_none_match :: "cache_key list"

text \<open>\<^verbatim>\<open>QueryDict.getlist(key)\<close>: every value given for the key, in order; none gives \<^verbatim>\<open>[]\<close>.\<close>

definition getlist :: "string \<Rightarrow> query_dict \<Rightarrow> string list" where
  "getlist k d = map snd (filter (\<lambda>kv. fst kv = k) d)"

record response =
  status :: nat
  content :: "string option"
  ETag_header :: "cache_key option"

text \<open>
  What a view method raises instead of returning a response. The first five are the
  framework's API exceptions; the last four are Python errors, answered with status 500.
\<close>

datatype api_exception =
    NotAuthenticated
  | PermissionDenied
  | Http404
  | ValidationError string
  | MethodNotAllowed
  | AssertionError
  | TypeError
  | AttributeError
  | MultipleObjectsReturned

fun status_code :: "api_exception \<Rightarrow> nat" where
  "status_code NotAuthenticated = 401"
| "status_code PermissionDenied = 403"
| "status_code Http404 = 404"
| "status_code (ValidationError errors) = 400"
| "status_code MethodNotAllowed = 405"
| "status_code AssertionError = 500"
| "status_code TypeError = 500"
| "status_code AttributeError = 500"
| "status_code MultipleObjectsReturned = 500"

fun exception_detail :: "api_exception \<Rightarrow> string option" where
  "exception_detail (ValidationError errors) = Some errors"
| "exception_detail e = None"

definition handle_exception :: "api_exception \<Rightarrow> response" where
  "handle_exception e =
     \<lparr>status = status_code e, content = exception_detail e, ETag_header = None\<rparr>"

section \<open>Key constructors (lines 19 to 31 of the source)\<close>

datatype key_bit =
    PaginationKeyBit
  | QueryParamsKeyBit "string list"
  | ListSqlQueryKeyBit
  | RetrieveSqlQueryKeyBit
  | UniqueViewIdKeyBit
  | UniqueMethodIdKeyBit
  | FormatKeyBit
  | LanguageKeyBit

text \<open>A key constructor class: the bits it declares, by attribute name.\<close>

type_synonym key_constructor = "(string \<times> key_bit) list"

definition PagingPrivateTopicListKeyConstructor :: key_constructor where
  "PagingPrivateTopicListKeyConstructor =
     [(''pagination'', PaginationKeyBit),
      (''search'', QueryParamsKeyBit [''search'', ''ordering'']),
      (''list_sql_query'', ListSqlQueryKeyBit),
      (''unique_view_id'', UniqueViewIdKeyBit)]"

definition DetailKeyConstructor :: key_constructor where
  "DetailKeyConstructor =
     [(''format'', FormatKeyBit),
      (''language'', LanguageKeyBit),
      (''retrieve_sql_query'', RetrieveSqlQueryKeyBit),
      (''unique_view_id'', UniqueViewIdKeyBit)]"

section \<open>View classes and their collaborators\<close>

datatype permission_class = IsAuthenticated | IsParticipant

datatype serializer_class =
    PrivateTopicSerializer
  | PrivateTopicUpdateSerializer
  | PrivateTopicCreateSerializer

text \<open>
  The class attributes and the hooks a view class gives to the framework. A hook takes
  the request where the source reads \<^verbatim>\<open>self.request\<close>; \<^verbatim>\<open>get_queryset\<close> can raise.
\<close>

record view =
  view_name :: string
  permission_classes :: "permission_class list"
  filter_backends :: "filter_backend list"
  search_fields :: "string list"
  ordering_fields :: "string list"
  get_queryset :: "request \<Rightarrow> api_exception + queryset"
  get_serializer_class :: "request \<Rightarrow> serializer_class option"
  get_current_user :: "request \<Rightarrow> request_user"

text \<open>The state a request runs in: the database and the response cache.\<close>

record 'db world =
  db :: 'db
  cache :: "(cache_key \<times> response) list"

text \<open>
  The collaborators whose code is not in the source are parameters of the model: the
  object-relational mapper (\<open>evaluate\<close>), the mixin \<^verbatim>\<open>LeavePrivateTopic\<close>
  (\<open>perform_destroy\<close>), the permission class \<^verbatim>\<open>IsParticipant\<close>, the serializers
  together with the framework's pagination and rendering, the key bits and the base key
  constructor of the caching library, and the handlers a view inherits for the methods the
  source does not define. A method of a collaborator takes the view (Python's \<^verbatim>\<open>self\<close>,
  so that it can call the view's hooks) and the request. Each is taken as a function that
  returns; every theorem stated for a collaborator \<open>c\<close> holds for every choice of them.
\<close>

record ('db, 't) collaborators =
  evaluate :: "queryset \<Rightarrow> 'db \<Rightarrow> 't list"
  perform_destroy :: "view \<Rightarrow> request \<Rightarrow> 't \<Rightarrow> 'db \<Rightarrow> 'db"
  IsParticipant_has_permission :: "view \<Rightarrow> request \<Rightarrow> bool"
  IsParticipant_has_object_permission :: "view \<Rightarrow> request \<Rightarrow> 't \<Rightarrow> bool"
  serialize :: "serializer_class \<Rightarrow> view \<Rightarrow> request \<Rightarrow> 't \<Rightarrow> string"
  serialize_page :: "serializer_class \<Rightarrow> view \<Rightarrow> request \<Rightarrow> 't list \<Rightarrow> string"
  serializer_create ::
    "serializer_class \<Rightarrow> view \<Rightarrow> request \<Rightarrow> 'db \<Rightarrow> string + string \<times> 'db"
  serializer_update ::
    "serializer_class \<Rightarrow> view \<Rightarrow> request \<Rightarrow> 't \<Rightarrow> 'db \<Rightarrow> string + string \<times> 'db"
  DefaultKeyConstructor :: key_constructor
  get_data :: "key_bit \<Rightarrow> view \<Rightarrow> string \<Rightarrow> request \<Rightarrow> bit_data"
  inherited_handler ::
    "view \<Rightarrow> request \<Rightarrow> 'db world \<Rightarrow> api_exception + response \<times> 'db world"

text \<open>A view method: it raises, or returns a response and the new state.\<close>

type_synonym ('db, 't) view_method =
  "('db, 't) collaborators \<Rightarrow> request \<Rightarrow> 'db world \<Rightarrow> api_exception + response \<times> 'db world"

section \<open>The framework's generic views\<close>

text \<open>
  Modelled from the spec: the framework's generic views are not in the source. The spec
  names their verbs (\<^verbatim>\<open>list\<close>, \<^verbatim>\<open>create\<close>, \<^verbatim>\<open>retrieve\<close>, \<^verbatim>\<open>update\<close>, \<^verbatim>\<open>destroy\<close>),
  "a queryset filter and a permission class"; the definitions of this section follow the
  framework's documented control flow and leave every decision to the collaborators.
  \<open>GenericAPIView_filter_queryset\<close> applies each filter backend of the view in turn, the
  search filter with the view's \<^verbatim>\<open>search_fields\<close> and the request's \<^verbatim>\<open>search\<close> terms, the
  ordering filter with \<^verbatim>\<open>ordering_fields\<close> and the \<^verbatim>\<open>ordering\<close> terms.
\<close>

fun backend_fields :: "view \<Rightarrow> filter_backend \<Rightarrow> string list" where
  "backend_fields v SearchFilter = search_fields v"
| "backend_fields v OrderingFilter = ordering_fields v"

fun backend_param :: "filter_backend \<Rightarrow> string" where
  "backend_param SearchFilter = ''search''"
| "backend_param OrderingFilter = ''ordering''"

definition GenericAPIView_filter_queryset :: "view \<Rightarrow> request \<Rightarrow> queryset \<Rightarrow> queryset" where
  "GenericAPIView_filter_queryset v r qs =
     foldl (\<lambda>q b. backend_filtered b (backend_fields v b)
                     (getlist (backend_param b) (query_params r)) q)
       qs (filter_backends v)"

text \<open>
  Modelled from the spec: the permission classes are not in the source. \<^verbatim>\<open>IsAuthenticated\<close>
  grants a request whose user is authenticated, and every object to such a request;
  \<^verbatim>\<open>IsParticipant\<close> is a collaborator. A refused request is answered "not authenticated"
  (401, as every handler's documentation lists it) when it carries no authenticated user,
  and "permission denied" (403) otherwise.
\<close>

fun has_permission ::
  "('db, 't) collaborators \<Rightarrow> view \<Rightarrow> permission_class \<Rightarrow> request \<Rightarrow> bool" where
  "has_permission c v IsAuthenticated r = is_authenticated (user r)"
| "has_permission c v IsParticipant r = IsParticipant_has_permission c v r"

fun has_object_permission ::
  "('db, 't) collaborators \<Rightarrow> view \<Rightarrow> permission_class \<Rightarrow> request \<Rightarrow> 't \<Rightarrow> bool" where
  "has_object_permission c v IsAuthenticated r obj = True"
| "has_object_permission c v IsParticipant r obj =
     IsParticipant_has_object_permission c v r obj"

definition permission_denied :: "request \<Rightarrow> api_exception" where
  "permission_denied r =
     (if is_authenticated (user r) then PermissionDenied else NotAuthenticated)"

definition APIView_check_permissions ::
  "('db, 't) collaborators \<Rightarrow> view \<Rightarrow> request \<Rightarrow> api_exception option" where
  "APIView_check_permissions c v r =
     (case find (\<lambda>p. \<not> has_permission c v p r) (permission_classes v) of
        None \<Rightarrow> None
      | Some p \<Rightarrow> Some (permission_denied r))"

definition APIView_check_object_permissions ::
  "('db, 't) collaborators \<Rightarrow> view \<Rightarrow> request \<Rightarrow> 't \<Rightarrow> api_exception option" where
  "APIView_check_object_permissions c v r obj =
     (case find (\<lambda>p. \<not> has_object_permission c v p r obj) (permission_classes v) of
        None \<Rightarrow> None
      | Some p \<Rightarrow> Some (permission_denied r))"

text \<open>
  Modelled from the spec: \<^verbatim>\<open>get_object\<close> of the framework is not in the source. It looks
  the object up in the view's filtered query set by the URL keyword argument \<^verbatim>\<open>pk\<close>
  (an assertion fails when the URL has none), raises "not found" when there is no such
  object, and then checks the object permissions.
\<close>

definition GenericAPIView_get_object ::
  "('db, 't) collaborators \<Rightarrow> view \<Rightarrow> request \<Rightarrow> 'db \<Rightarrow> api_exception + 't" where
  "GenericAPIView_get_object c v r d =
     (case map_of (url_kwargs r) ''pk'' of
        None \<Rightarrow> Inl AssertionError
      | Some pk \<Rightarrow>
          (case get_queryset v r of
             Inl e \<Rightarrow> Inl e
           | Inr qs \<Rightarrow>
               (case evaluate c (lookup ''pk'' pk (GenericAPIView_filter_queryset v r qs)) d of
                  [] \<Rightarrow> Inl Http404
                | [obj] \<Rightarrow>
                    (case APIView_check_object_permissions c v r obj of
                       Some e \<Rightarrow> Inl e
                     | None \<Rightarrow> Inr obj)
                | obj # others \<Rightarrow> Inl MultipleObjectsReturned)))"

text \<open>
  Modelled from the spec: the five generic verbs are not in the source. A verb that
  needs a serializer calls the view's \<^verbatim>\<open>get_serializer_class()\<close> and then the class it
  returns; calling Python's \<^verbatim>\<open>None\<close> is a \<^verbatim>\<open>TypeError\<close>.
\<close>

definition ListModelMixin_list :: "view \<Rightarrow> ('db, 't) view_method" where
  "ListModelMixin_list v c r w =
     (case get_queryset v r of
        Inl e \<Rightarrow> Inl e
      | Inr qs \<Rightarrow>
          (let page = evaluate c (GenericAPIView_filter_queryset v r qs) (db w) in
           case get_serializer_class v r of
             None \<Rightarrow> Inl TypeError
           | Some sc \<Rightarrow>
               Inr (\<lparr>status = 200, content = Some (serialize_page c sc v r page),
                     ETag_header = None\<rparr>, w)))"

definition CreateModelMixin_create :: "view \<Rightarrow> ('db, 't) view_method" where
  "CreateModelMixin_create v c r w =
     (case get_serializer_class v r of
        None \<Rightarrow> Inl TypeError
      | Some sc \<Rightarrow>
          (case serializer_create c sc v r (db w) of
             Inl errors \<Rightarrow> Inl (ValidationError errors)
           | Inr (data, d') \<Rightarrow>
               Inr (\<lparr>status = 201, content = Some data, ETag_header = None\<rparr>, w\<lparr>db := d'\<rparr>)))"

definition RetrieveModelMixin_retrieve :: "view \<Rightarrow> ('db, 't) view_method" where
  "RetrieveModelMixin_retrieve v c r w =
     (case GenericAPIView_get_object c v r (db w) of
        Inl e \<Rightarrow> Inl e
      | Inr instance \<Rightarrow>
          (case get_serializer_class v r of
             None \<Rightarrow> Inl TypeError
           | Some sc \<Rightarrow>
               Inr (\<lparr>status = 200, content = Some (serialize c sc v r instance), ETag_header = None\<rparr>,
                    w)))"

definition UpdateModelMixin_update :: "view \<Rightarrow> ('db, 't) view_method" where
  "UpdateModelMixin_update v c r w =
     (case GenericAPIView_get_object c v r (db w) of
        Inl e \<Rightarrow> Inl e
      | Inr instance \<Rightarrow>
          (case get_serializer_class v r of
             None \<Rightarrow> Inl TypeError
           | Some sc \<Rightarrow>
               (case serializer_update c sc v r instance (db w) of
                  Inl errors \<Rightarrow> Inl (ValidationError errors)
                | Inr (data, d') \<Rightarrow>
                    Inr (\<lparr>status = 200, content = Some data, ETag_header = None\<rparr>,
                         w\<lparr>db := d'\<rparr>))))"

definition DestroyModelMixin_destroy :: "view \<Rightarrow> ('db, 't) view_method" where
  "DestroyModelMixin_destroy v c r w =
     (case GenericAPIView_get_object c v r (db w) of
        Inl e \<Rightarrow> Inl e
      | Inr instance \<Rightarrow>
          Inr (\<lparr>status = 204, content = None, ETag_header = None\<rparr>,
               w\<lparr>db := perform_destroy c v r instance (db w)\<rparr>))"

section \<open>The caching library's decorators\<close>

text \<open>
  Modelled from the spec: the "caching/ETag decoration library" is not in the source. A
  key constructor gives a request the key made of the data of its bits, its own and those
  it inherits from the library's base class. \<^verbatim>\<open>cache_response\<close> answers with the response
  the cache holds for the key when there is one, and otherwise calls the method it wraps
  and stores the response it returned. \<^verbatim>\<open>etag\<close> answers 304 when the request's
  \<^verbatim>\<open>If-None-Match\<close> names the key, and otherwise calls the method it wraps and sets the
  key as the response's \<^verbatim>\<open>ETag\<close>. Entries of the cache do not expire here.
\<close>

datatype decorator = etag key_constructor | cache_response key_constructor

definition bits :: "('db, 't) collaborators \<Rightarrow> key_constructor \<Rightarrow> (string \<times> key_bit) list" where
  "bits c kc = kc @ filter (\<lambda>nb. map_of kc (fst nb) = None) (DefaultKeyConstructor c)"

definition get_key ::
  "('db, 't) collaborators \<Rightarrow> key_constructor \<Rightarrow> view \<Rightarrow> string \<Rightarrow> request \<Rightarrow> cache_key" where
  "get_key c kc v m r = map (\<lambda>nb. (fst nb, get_data c (snd nb) v m r)) (bits c kc)"

fun apply_decorator ::
  "view \<Rightarrow> string \<Rightarrow> decorator \<Rightarrow> ('db, 't) view_method \<Rightarrow> ('db, 't) view_method" where
  "apply_decorator v m (cache_response kc) inner c r w =
     (case map_of (cache w) (get_key c kc v m r) of
        Some cached \<Rightarrow> Inr (cached, w)
      | None \<Rightarrow>
          (case inner c r w of
             Inl e \<Rightarrow> Inl e
           | Inr (resp, w') \<Rightarrow>
               Inr (resp, w'\<lparr>cache := (get_key c kc v m r, resp) # cache w'\<rparr>)))"
| "apply_decorator v m (etag kc) inner c r w =
     (if get_key c kc v m r \<in> set (if_none_match r)
      then Inr (\<lparr>status = 304, content = None, ETag_header = Some (get_key c kc v m r)\<rparr>, w)
      else
        (case inner c r w of
           Inl e \<Rightarrow> Inl e
         | Inr (resp, w') \<Rightarrow> Inr (resp\<lparr>ETag_header := Some (get_key c kc v m r)\<rparr>, w')))"

text \<open>The key a decorator works with.\<close>

fun decorator_key ::
  "('db, 't) collaborators \<Rightarrow> view \<Rightarrow> string \<Rightarrow> request \<Rightarrow> decorator \<Rightarrow> cache_key" where
  "decorator_key c v m r (etag kc) = get_key c kc v m r"
| "decorator_key c v m r (cache_response kc) = get_key c kc v m r"

section \<open>Handlers and dispatch\<close>

text \<open>
  A handler is a method of a view class named after an HTTP method, with the decorators
  written above it, outermost first. A view class is its attributes and hooks together
  with the handlers it defines.
\<close>

record ('db, 't) handler =
  decorators :: "decorator list"
  body :: "('db, 't) view_method"

record ('db, 't) view_class =
  attributes :: view
  handlers :: "string \<Rightarrow> ('db, 't) handler option"

definition decorated :: "view \<Rightarrow> string \<Rightarrow> ('db, 't) handler \<Rightarrow> ('db, 't) view_method" where
  "decorated v m h = foldr (apply_decorator v m) (decorators h) (body h)"

text \<open>
  Modelled from the spec: the framework's \<^verbatim>\<open>dispatch\<close> is not in the source. It checks the
  permission classes first, then calls the handler of the request's method (a handler the
  class inherits when the source defines none), and turns an exception into its response;
  a request that raised leaves the state as it was.
\<close>

definition APIView_dispatch ::
  "('db, 't) collaborators \<Rightarrow> ('db, 't) view_class \<Rightarrow> request \<Rightarrow> 'db world \<Rightarrow>
     response \<times> 'db world" where
  "APIView_dispatch c cls r w =
     (case APIView_check_permissions c (attributes cls) r of
        Some e \<Rightarrow> (handle_exception e, w)
      | None \<Rightarrow>
          (case (case handlers cls (request_method r) of
                   None \<Rightarrow> inherited_handler c (attributes cls) r w
                 | Some h \<Rightarrow> decorated (attributes cls) (request_method r) h c r w) of
             Inl e \<Rightarrow> (handle_exception e, w)
           | Inr (resp, w') \<Rightarrow> (resp, w')))"

section \<open>The view classes of the source\<close>

subsection \<open>\<^verbatim>\<open>PrivateTopicListAPI\<close> (lines 33 to 150)\<close>

definition PrivateTopicListAPI_get_current_user :: "request \<Rightarrow> request_user" where
  "PrivateTopicListAPI_get_current_user r = user r"

text \<open>A Python function that ends without \<^verbatim>\<open>return\<close> gives \<^verbatim>\<open>None\<close>.\<close>

definition PrivateTopicListAPI_get_serializer_class :: "request \<Rightarrow> serializer_class option" where
  "PrivateTopicListAPI_get_serializer_class r =
     (if request_method r = ''GET'' then Some PrivateTopicSerializer
      else if request_method r = ''POST'' then Some PrivateTopicCreateSerializer
      else None)"

text \<open>
  Line 148 calls \<^verbatim>\<open>self.request.data.getlist('pk')\<close>: when \<^verbatim>\<open>request.data\<close> is not a
  \<^verbatim>\<open>QueryDict\<close> the attribute is missing and the call raises \<^verbatim>\<open>AttributeError\<close>.
\<close>

definition PrivateTopicListAPI_get_queryset :: "request \<Rightarrow> api_exception + queryset" where
  "PrivateTopicListAPI_get_queryset r =
     (if request_method r = ''DELETE''
      then (case request_data r of
              QueryDict form \<Rightarrow>
                Inr (get_private_topics_selected (user_id (user r)) (getlist ''pk'' form))
            | Dict d \<Rightarrow> Inl AttributeError)
      else Inr (get_private_topics_of_user (user_id (user r))))"

definition PrivateTopicListAPI_attributes :: view where
  "PrivateTopicListAPI_attributes =
     \<lparr>view_name = ''zds.mp.api.views.PrivateTopicListAPI'',
      permission_classes = [IsAuthenticated],
      filter_backends = [SearchFilter, OrderingFilter],
      search_fields = [''title''],
      ordering_fields = [''pubdate'', ''last_message'', ''title''],
      get_queryset = PrivateTopicListAPI_get_queryset,
      get_serializer_class = PrivateTopicListAPI_get_serializer_class,
      get_current_user = PrivateTopicListAPI_get_current_user\<rparr>"

definition list_key_func :: key_constructor where
  "list_key_func = PagingPrivateTopicListKeyConstructor"

definition PrivateTopicListAPI_get :: "('db, 't) view_method" where
  "PrivateTopicListAPI_get c r w = ListModelMixin_list PrivateTopicListAPI_attributes c r w"

definition PrivateTopicListAPI_post :: "('db, 't) view_method" where
  "PrivateTopicListAPI_post c r w = CreateModelMixin_create PrivateTopicListAPI_attributes c r w"

text \<open>
  The loop of \<^verbatim>\<open>delete\<close> iterates the query set of \<^verbatim>\<open>get_queryset()\<close>, read from the
  database as the loop starts, and calls \<^verbatim>\<open>perform_destroy\<close> on each topic in turn.
\<close>

definition PrivateTopicListAPI_delete :: "('db, 't) view_method" where
  "PrivateTopicListAPI_delete c r w =
     (case get_queryset PrivateTopicListAPI_attributes r of
        Inl e \<Rightarrow> Inl e
      | Inr qs \<Rightarrow>
          Inr (\<lparr>status = 204, content = None, ETag_header = None\<rparr>,
               w\<lparr>db := foldl
                          (\<lambda>d topic. perform_destroy c PrivateTopicListAPI_attributes r topic d)
                          (db w) (evaluate c qs (db w))\<rparr>))"

definition PrivateTopicListAPI :: "('db, 't) view_class" where
  "PrivateTopicListAPI =
     \<lparr>attributes = PrivateTopicListAPI_attributes,
      handlers = (\<lambda>m.
        if m = ''GET'' then
          Some \<lparr>decorators = [etag list_key_func, cache_response list_key_func],
                body = PrivateTopicListAPI_get\<rparr>
        else if m = ''POST'' then Some \<lparr>decorators = [], body = PrivateTopicListAPI_post\<rparr>
        else if m = ''DELETE'' then Some \<lparr>decorators = [], body = PrivateTopicListAPI_delete\<rparr>
        else None)\<rparr>"

subsection \<open>\<^verbatim>\<open>PrivateTopicDetailAPI\<close> (lines 153 to 246)\<close>

definition PrivateTopicDetailAPI_queryset :: queryset where
  "PrivateTopicDetailAPI_queryset = objects_all"

definition PrivateTopicDetailAPI_get_current_user :: "request \<Rightarrow> request_user" where
  "PrivateTopicDetailAPI_get_current_user r = user r"

definition PrivateTopicDetailAPI_get_serializer_class :: "request \<Rightarrow> serializer_class option" where
  "PrivateTopicDetailAPI_get_serializer_class r =
     (if request_method r = ''GET'' then Some PrivateTopicSerializer
      else if request_method r = ''PUT'' then Some PrivateTopicUpdateSerializer
      else None)"

text \<open>
  The class sets no filter backend, so it has the framework's default, none; its
  \<^verbatim>\<open>get_queryset()\<close> is the framework's, which returns the attribute \<^verbatim>\<open>queryset\<close>.
\<close>

definition PrivateTopicDetailAPI_attributes :: view where
  "PrivateTopicDetailAPI_attributes =
     \<lparr>view_name = ''zds.mp.api.views.PrivateTopicDetailAPI'',
      permission_classes = [IsAuthenticated, IsParticipant],
      filter_backends = [],
      search_fields = [],
      ordering_fields = [],
      get_queryset = (\<lambda>r. Inr PrivateTopicDetailAPI_queryset),
      get_serializer_class = PrivateTopicDetailAPI_get_serializer_class,
      get_current_user = PrivateTopicDetailAPI_get_current_user\<rparr>"

definition obj_key_func :: key_constructor where
  "obj_key_func = DetailKeyConstructor"

definition PrivateTopicDetailAPI_get :: "('db, 't) view_method" where
  "PrivateTopicDetailAPI_get c r w =
     RetrieveModelMixin_retrieve PrivateTopicDetailAPI_attributes c r w"

definition PrivateTopicDetailAPI_put :: "('db, 't) view_method" where
  "PrivateTopicDetailAPI_put c r w =
     UpdateModelMixin_update PrivateTopicDetailAPI_attributes c r w"

definition PrivateTopicDetailAPI_delete :: "('db, 't) view_method" where
  "PrivateTopicDetailAPI_delete c r w =
     DestroyModelMixin_destroy PrivateTopicDetailAPI_attributes c r w"

definition PrivateTopicDetailAPI :: "('db, 't) view_class" where
  "PrivateTopicDetailAPI =
     \<lparr>attributes = PrivateTopicDetailAPI_attributes,
      handlers = (\<lambda>m.
        if m = ''GET'' then
          Some \<lparr>decorators = [etag obj_key_func, cache_response obj_key_func],
                body = PrivateTopicDetailAPI_get\<rparr>
        else if m = ''PUT'' then Some \<lparr>decorators = [], body = PrivateTopicDetailAPI_put\<rparr>
        else if m = ''DELETE'' then Some \<lparr>decorators = [], body = PrivateTopicDetailAPI_delete\<rparr>
        else None)\<rparr>"

section \<open>The six operations\<close>

text \<open>
  The operations the spec lists: list, create and delete on the list endpoint, retrieve,
  update and leave on the detail endpoint. \<open>handler_of\<close> is the handler the source
  defines for each; \<open>view_of\<close> is the class it belongs to.
\<close>

datatype operation = Op_list | Op_create | Op_delete | Op_retrieve | Op_update | Op_leave

fun handler_of :: "operation \<Rightarrow> ('db, 't) view_method" where
  "handler_of Op_list = PrivateTopicListAPI_get"
| "handler_of Op_create = PrivateTopicListAPI_post"
| "handler_of Op_delete = PrivateTopicListAPI_delete"
| "handler_of Op_retrieve = PrivateTopicDetailAPI_get"
| "handler_of Op_update = PrivateTopicDetailAPI_put"
| "handler_of Op_leave = PrivateTopicDetailAPI_delete"

fun view_of :: "operation \<Rightarrow> view" where
  "view_of Op_list = PrivateTopicListAPI_attributes"
| "view_of Op_create = PrivateTopicListAPI_attributes"
| "view_of Op_delete = PrivateTopicListAPI_attributes"
| "view_of Op_retrieve = PrivateTopicDetailAPI_attributes"
| "view_of Op_update = PrivateTopicDetailAPI_attributes"
| "view_of Op_leave = PrivateTopicDetailAPI_attributes"

text \<open>
  The spec's reading of the handlers: each operation "is a direct pass-through to generic
  framework verbs (\<^verbatim>\<open>list\<close>, \<^verbatim>\<open>create\<close>, \<^verbatim>\<open>retrieve\<close>, \<^verbatim>\<open>update\<close>, \<^verbatim>\<open>destroy\<close>)".
\<close>

fun spec_verb_of :: "operation \<Rightarrow> ('db, 't) view_method" where
  "spec_verb_of Op_list = ListModelMixin_list (view_of Op_list)"
| "spec_verb_of Op_create = CreateModelMixin_create (view_of Op_create)"
| "spec_verb_of Op_delete = DestroyModelMixin_destroy (view_of Op_delete)"
| "spec_verb_of Op_retrieve = RetrieveModelMixin_retrieve (view_of Op_retrieve)"
| "spec_verb_of Op_update = UpdateModelMixin_update (view_of Op_update)"
| "spec_verb_of Op_leave = DestroyModelMixin_destroy (view_of Op_leave)"


section \<open>An instance of the collaborators\<close>

text \<open>
  One choice of the collaborators, on which the model is evaluated at concrete requests.
  A private topic has an identifier, an author, participants and a title; the database
  is the list of the topics.
\<close>

record private_topic =
  pk :: int
  author :: int
  participants :: "int list"
  title :: string

definition digit_value :: "char \<Rightarrow> int option" where
  "digit_value ch =
     map_of [(CHR ''0'', 0), (CHR ''1'', 1), (CHR ''2'', 2), (CHR ''3'', 3), (CHR ''4'', 4),
             (CHR ''5'', 5), (CHR ''6'', 6), (CHR ''7'', 7), (CHR ''8'', 8), (CHR ''9'', 9)] ch"

fun parse_digits :: "int \<Rightarrow> string \<Rightarrow> int option" where
  "parse_digits acc [] = Some acc"
| "parse_digits acc (ch # cs) =
     (case digit_value ch of
        None \<Rightarrow> None
      | Some dgt \<Rightarrow> parse_digits (10 * acc + dgt) cs)"

text \<open>An identifier written in a URL or a form: decimal digits, at least one.\<close>

definition parse_pk :: "string \<Rightarrow> int option" where
  "parse_pk s = (if s = [] then None else parse_digits 0 s)"

text \<open>
  Modelled from the spec: the model \<^verbatim>\<open>PrivateTopic\<close> and the permission class
  \<^verbatim>\<open>IsParticipant\<close> are not in the source. A user belongs to a private topic as its
  author or as one of its participants; the anonymous user belongs to none.
\<close>

fun belongs :: "int option \<Rightarrow> private_topic \<Rightarrow> bool" where
  "belongs None t = False"
| "belongs (Some u) t = (author t = u \<or> u \<in> set (participants t))"

text \<open>
  Modelled from the spec: the manager \<^verbatim>\<open>PrivateTopic.objects\<close> is not in the source.
  \<^verbatim>\<open>all()\<close> is every topic; \<^verbatim>\<open>get_private_topics_of_user\<close> is "the authenticated user's
  private topics"; \<^verbatim>\<open>get_private_topics_selected\<close> is those of them a given identifier
  names. This instance applies no search and no ordering: the requests it is evaluated
  at carry no search or ordering term.
\<close>

fun example_evaluate :: "queryset \<Rightarrow> private_topic list \<Rightarrow> private_topic list" where
  "example_evaluate objects_all d = d"
| "example_evaluate (get_private_topics_of_user u) d = filter (belongs u) d"
| "example_evaluate (get_private_topics_selected u pks) d =
     filter (\<lambda>t. belongs u t \<and> Some (pk t) \<in> set (map parse_pk pks)) d"
| "example_evaluate (backend_filtered b fs terms qs) d = example_evaluate qs d"
| "example_evaluate (lookup field v qs) d =
     filter (\<lambda>t. parse_pk v = Some (pk t)) (example_evaluate qs d)"

text \<open>
  Modelled from the spec: the mixin \<^verbatim>\<open>LeavePrivateTopic\<close> is not in the source; the spec
  says it holds "who may leave or delete a thread". In this instance the current user
  leaves the topic: a topic without participants is deleted, an author who leaves hands
  the topic to its first participant, and a participant who leaves is removed.
\<close>

definition example_perform_destroy ::
  "view \<Rightarrow> request \<Rightarrow> private_topic \<Rightarrow> private_topic list \<Rightarrow> private_topic list" where
  "example_perform_destroy v r t d =
     (if participants t = [] then filter (\<lambda>x. pk x \<noteq> pk t) d
      else if user_id (get_current_user v r) = Some (author t) then
        map (\<lambda>x. if pk x = pk t
                 then x\<lparr>author := hd (participants t), participants := tl (participants t)\<rparr>
                 else x) d
      else
        map (\<lambda>x. if pk x = pk t
                 then x\<lparr>participants :=
                          filter (\<lambda>u. Some u \<noteq> user_id (get_current_user v r)) (participants t)\<rparr>
                 else x) d)"

text \<open>
  Modelled from the spec: the serializers are not in the source; the spec says they hold
  "how participants are validated". In this instance a topic is rendered as its title,
  a new topic needs a title, and an update may give a new title. A serializer reads a
  field of \<^verbatim>\<open>request.data\<close> from a form or from a dictionary alike.
\<close>

fun field_values :: "string \<Rightarrow> request_body \<Rightarrow> string list" where
  "field_values k (QueryDict form) = getlist k form"
| "field_values k (Dict d) = (case map_of d k of None \<Rightarrow> [] | Some x \<Rightarrow> [x])"

definition example_serializer_create ::
  "serializer_class \<Rightarrow> view \<Rightarrow> request \<Rightarrow> private_topic list \<Rightarrow>
     string + string \<times> private_topic list" where
  "example_serializer_create sc v r d =
     (case (field_values ''title'' (request_data r), user_id (user r)) of
        (t # ts, Some u) \<Rightarrow>
          Inr (t, d @ [\<lparr>pk = 1 + foldl max 0 (map pk d), author = u,
                        participants = List.map_filter parse_pk
                                         (field_values ''participants'' (request_data r)),
                        title = t\<rparr>])
      | other \<Rightarrow> Inl ''title: this field is required'')"

definition example_serializer_update ::
  "serializer_class \<Rightarrow> view \<Rightarrow> request \<Rightarrow> private_topic \<Rightarrow> private_topic list \<Rightarrow>
     string + string \<times> private_topic list" where
  "example_serializer_update sc v r t d =
     (case field_values ''title'' (request_data r) of
        [] \<Rightarrow> Inr (title t, d)
      | new # ts \<Rightarrow> Inr (new, map (\<lambda>x. if pk x = pk t then x\<lparr>title := new\<rparr> else x) d))"

text \<open>
  Modelled from the spec: the key bits are not in the source. In this instance each bit
  gives what its name says: the pagination and the named query parameters, the SQL text
  of the view's filtered query set (for one object, with its lookup), the names of the
  view and of the method, the response format and the language.
\<close>

fun example_get_data :: "key_bit \<Rightarrow> view \<Rightarrow> string \<Rightarrow> request \<Rightarrow> bit_data" where
  "example_get_data PaginationKeyBit v m r =
     Values (getlist ''page'' (query_params r) @ getlist ''page_size'' (query_params r))"
| "example_get_data (QueryParamsKeyBit ps) v m r =
     Values (concat (map (\<lambda>p. getlist p (query_params r)) ps))"
| "example_get_data ListSqlQueryKeyBit v m r =
     (case get_queryset v r of
        Inl e \<Rightarrow> Text []
      | Inr qs \<Rightarrow> Sql (GenericAPIView_filter_queryset v r qs))"
| "example_get_data RetrieveSqlQueryKeyBit v m r =
     (case get_queryset v r of
        Inl e \<Rightarrow> Text []
      | Inr qs \<Rightarrow>
          Sql (lookup ''pk'' (concat (getlist ''pk'' (url_kwargs r)))
                 (GenericAPIView_filter_queryset v r qs)))"
| "example_get_data UniqueViewIdKeyBit v m r = Text (view_name v)"
| "example_get_data UniqueMethodIdKeyBit v m r = Text (view_name v @ ''.'' @ m)"
| "example_get_data FormatKeyBit v m r = Text (accepted_format r)"
| "example_get_data LanguageKeyBit v m r = Text (language r)"

text \<open>
  The handlers the instance inherits: the framework's \<^verbatim>\<open>patch\<close>, which is \<^verbatim>\<open>update\<close>
  with partial data, and "method not allowed" for every other method the source does
  not define.
\<close>

definition example_core :: "(private_topic list, private_topic) collaborators" where
  "example_core =
     \<lparr>evaluate = example_evaluate,
      perform_destroy = example_perform_destroy,
      IsParticipant_has_permission = (\<lambda>v r. True),
      IsParticipant_has_object_permission = (\<lambda>v r t. belongs (user_id (user r)) t),
      serialize = (\<lambda>sc v r t. title t),
      serialize_page = (\<lambda>sc v r ts. concat (map (\<lambda>t. title t @ ''; '') ts)),
      serializer_create = example_serializer_create,
      serializer_update = example_serializer_update,
      DefaultKeyConstructor =
        [(''unique_method_id'', UniqueMethodIdKeyBit),
         (''format'', FormatKeyBit),
         (''language'', LanguageKeyBit)],
      get_data = example_get_data,
      inherited_handler = (\<lambda>v r w. Inl MethodNotAllowed)\<rparr>"

definition example_collaborators :: "(private_topic list, private_topic) collaborators" where
  "example_collaborators =
     example_core
       \<lparr>inherited_handler :=
          (\<lambda>v r w. if request_method r = ''PATCH'' \<and> map_of (url_kwargs r) ''pk'' \<noteq> None
                   then UpdateModelMixin_update v example_core r w
                   else Inl MethodNotAllowed)\<rparr>"

text \<open>
  Two topics: user 1 wrote the first to user 2, user 3 wrote the second to user 4.
\<close>

definition example_db :: "private_topic list" where
  "example_db =
     [\<lparr>pk = 1, author = 1, participants = [2], title = ''hello''\<rparr>,
      \<lparr>pk = 2, author = 3, participants = [4], title = ''secret''\<rparr>]"

definition example_world :: "private_topic list world" where
  "example_world = \<lparr>db = example_db, cache = []\<rparr>"

text \<open>A request of a user to the list endpoint, and one to the detail endpoint of a topic.\<close>

definition list_request :: "string \<Rightarrow> request_user \<Rightarrow> request_body \<Rightarrow> request" where
  "list_request m u payload =
     \<lparr>request_method = m, user = u, request_data = payload, query_params = [],
      url_kwargs = [], accepted_format = ''json'', language = ''fr'', if_none_match = []\<rparr>"

definition detail_request :: "string \<Rightarrow> request_user \<Rightarrow> string \<Rightarrow> request" where
  "detail_request m u topic =
     \<lparr>request_method = m, user = u, request_data = QueryDict [], query_params = [],
      url_kwargs = [(''pk'', topic)], accepted_format = ''json'', language = ''fr'',
      if_none_match = []\<rparr>"

section \<open>Recording what is destroyed\<close>



section \<open>Reading the two classes and the instance\<close>

lemma attrs_simps:
  "permission_classes PrivateTopicListAPI_attributes = [IsAuthenticated]"
  "permission_classes PrivateTopicDetailAPI_attributes = [IsAuthenticated, IsParticipant]"
  "filter_backends PrivateTopicListAPI_attributes = [SearchFilter, OrderingFilter]"
  "filter_backends PrivateTopicDetailAPI_attributes = []"
  "search_fields PrivateTopicListAPI_attributes = [''title'']"
  "ordering_fields PrivateTopicListAPI_attributes = [''pubdate'', ''last_message'', ''title'']"
  "get_queryset PrivateTopicListAPI_attributes = PrivateTopicListAPI_get_queryset"
  "get_queryset PrivateTopicDetailAPI_attributes = (\<lambda>r. Inr PrivateTopicDetailAPI_queryset)"
  "get_serializer_class PrivateTopicListAPI_attributes = PrivateTopicListAPI_get_serializer_class"
  "get_serializer_class PrivateTopicDetailAPI_attributes = PrivateTopicDetailAPI_get_serializer_class"
  "get_current_user PrivateTopicListAPI_attributes = PrivateTopicListAPI_get_current_user"
  "get_current_user PrivateTopicDetailAPI_attributes = PrivateTopicDetailAPI_get_current_user"
  "view_name PrivateTopicListAPI_attributes = ''zds.mp.api.views.PrivateTopicListAPI''"
  "view_name PrivateTopicDetailAPI_attributes = ''zds.mp.api.views.PrivateTopicDetailAPI''"
  by (simp_all add: PrivateTopicListAPI_attributes_def PrivateTopicDetailAPI_attributes_def)

lemma class_simps:
  "attributes PrivateTopicListAPI = PrivateTopicListAPI_attributes"
  "attributes PrivateTopicDetailAPI = PrivateTopicDetailAPI_attributes"
  "handlers PrivateTopicListAPI ''GET'' =
     Some \<lparr>decorators = [etag list_key_func, cache_response list_key_func],
           body = PrivateTopicListAPI_get\<rparr>"
  "handlers PrivateTopicListAPI ''POST'' = Some \<lparr>decorators = [], body = PrivateTopicListAPI_post\<rparr>"
  "handlers PrivateTopicListAPI ''DELETE'' =
     Some \<lparr>decorators = [], body = PrivateTopicListAPI_delete\<rparr>"
  "handlers PrivateTopicDetailAPI ''GET'' =
     Some \<lparr>decorators = [etag obj_key_func, cache_response obj_key_func],
           body = PrivateTopicDetailAPI_get\<rparr>"
  "handlers PrivateTopicDetailAPI ''PUT'' = Some \<lparr>decorators = [], body = PrivateTopicDetailAPI_put\<rparr>"
  "handlers PrivateTopicDetailAPI ''DELETE'' =
     Some \<lparr>decorators = [], body = PrivateTopicDetailAPI_delete\<rparr>"
  by (simp_all add: PrivateTopicListAPI_def PrivateTopicDetailAPI_def)

lemma example_simps:
  "evaluate example_collaborators = example_evaluate"
  "perform_destroy example_collaborators = example_perform_destroy"
  "IsParticipant_has_permission example_collaborators = (\<lambda>v r. True)"
  "IsParticipant_has_object_permission example_collaborators =
     (\<lambda>v r t. belongs (user_id (user r)) t)"
  "serialize example_collaborators = (\<lambda>sc v r t. title t)"
  "serialize_page example_collaborators = (\<lambda>sc v r ts. concat (map (\<lambda>t. title t @ ''; '') ts))"
  "serializer_create example_collaborators = example_serializer_create"
  "serializer_update example_collaborators = example_serializer_update"
  "get_data example_collaborators = example_get_data"
  "DefaultKeyConstructor example_collaborators =
     [(''unique_method_id'', UniqueMethodIdKeyBit),
      (''format'', FormatKeyBit),
      (''language'', LanguageKeyBit)]"
  by (simp_all add: example_collaborators_def example_core_def)


lemma example_lookup_topic_1:
  "evaluate example_collaborators (lookup ''pk'' ''1'' objects_all) (db example_world) =
     [\<lparr>pk = 1, author = 1, participants = [2], title = ''hello''\<rparr>]"
  by (simp add: example_simps example_world_def example_db_def parse_pk_def digit_value_def)


section \<open>Permission checks and object lookup\<close>

lemma check_permissions_unauthenticated:
  "\<not> is_authenticated (user r) \<Longrightarrow> IsAuthenticated \<in> set (permission_classes v) \<Longrightarrow>
   APIView_check_permissions c v r = Some NotAuthenticated"
proof -
  assume a: "\<not> is_authenticated (user r)" and m: "IsAuthenticated \<in> set (permission_classes v)"
  have "\<exists>p. find (\<lambda>p. \<not> has_permission c v p r) (permission_classes v) = Some p"
    using a m by (cases "find (\<lambda>p. \<not> has_permission c v p r) (permission_classes v)")
      (auto simp: find_None_iff)
  then show ?thesis using a
    by (auto simp: APIView_check_permissions_def permission_denied_def)
qed

lemma check_permissions_list_authenticated:
  "is_authenticated (user r) \<Longrightarrow>
   APIView_check_permissions c PrivateTopicListAPI_attributes r = None"
  by (simp add: APIView_check_permissions_def attrs_simps)

lemma check_permissions_detail_authenticated:
  "is_authenticated (user r) \<Longrightarrow>
   APIView_check_permissions c PrivateTopicDetailAPI_attributes r =
     (if IsParticipant_has_permission c PrivateTopicDetailAPI_attributes r then None
      else Some PermissionDenied)"
  by (simp add: APIView_check_permissions_def attrs_simps permission_denied_def)

lemma get_object_detail:
  "is_authenticated (user r) \<Longrightarrow> map_of (url_kwargs r) ''pk'' = Some p \<Longrightarrow>
   evaluate c (lookup ''pk'' p objects_all) d = [obj] \<Longrightarrow>
   GenericAPIView_get_object c PrivateTopicDetailAPI_attributes r d =
     (if IsParticipant_has_object_permission c PrivateTopicDetailAPI_attributes r obj
      then Inr obj else Inl PermissionDenied)"
  by (simp add: GenericAPIView_get_object_def GenericAPIView_filter_queryset_def attrs_simps
      PrivateTopicDetailAPI_queryset_def APIView_check_object_permissions_def
      permission_denied_def)

lemma get_object_detail_missing:
  "map_of (url_kwargs r) ''pk'' = Some p \<Longrightarrow>
   evaluate c (lookup ''pk'' p objects_all) d = [] \<Longrightarrow>
   GenericAPIView_get_object c PrivateTopicDetailAPI_attributes r d = Inl Http404"
  by (simp add: GenericAPIView_get_object_def GenericAPIView_filter_queryset_def attrs_simps
      PrivateTopicDetailAPI_queryset_def)


section \<open>The handlers and the generic verbs\<close>

text \<open>
  Claim C1, as amended. Five of the six handlers return exactly what the generic verb of
  the spec returns on the same request: \<^verbatim>\<open>list\<close> for GET and \<^verbatim>\<open>create\<close> for POST on the
  list endpoint, \<^verbatim>\<open>retrieve\<close> for GET, \<^verbatim>\<open>update\<close> for PUT and \<^verbatim>\<open>destroy\<close> for DELETE on
  the detail endpoint. The handler of DELETE on the list endpoint is not a pass-through:
  it iterates the query set of \<^verbatim>\<open>get_queryset()\<close>, calls \<^verbatim>\<open>perform_destroy\<close> on each topic
  and answers 204 with no content.
\<close>

theorem handlers_pass_through_except_bulk_delete:
  "(op \<noteq> Op_delete \<longrightarrow> handler_of op c r w = spec_verb_of op c r w) \<and>
   handler_of Op_delete c r w =
     (case get_queryset (view_of Op_delete) r of
        Inl e \<Rightarrow> Inl e
      | Inr qs \<Rightarrow>
          Inr (\<lparr>status = 204, content = None, ETag_header = None\<rparr>,
               w\<lparr>db := foldl (\<lambda>d topic. perform_destroy c (view_of Op_delete) r topic d) (db w)
                          (evaluate c qs (db w))\<rparr>))"
  by (cases op)
     (simp_all add: PrivateTopicListAPI_get_def PrivateTopicListAPI_post_def
        PrivateTopicListAPI_delete_def PrivateTopicDetailAPI_get_def
        PrivateTopicDetailAPI_put_def PrivateTopicDetailAPI_delete_def
        split: sum.splits)

theorem handlers_pass_through_except_bulk_delete_witness:
  "Op_retrieve \<noteq> Op_delete \<and>
   handler_of Op_retrieve example_collaborators (detail_request ''GET'' (User 1) ''1'')
     example_world =
   spec_verb_of Op_retrieve example_collaborators (detail_request ''GET'' (User 1) ''1'')
     example_world \<and>
   spec_verb_of Op_retrieve example_collaborators (detail_request ''GET'' (User 1) ''1'')
     example_world =
   Inr (\<lparr>status = 200, content = Some ''hello'', ETag_header = None\<rparr>, example_world)"
proof -
  have n: "Op_retrieve \<noteq> Op_delete" by simp
  have e: "handler_of Op_retrieve example_collaborators (detail_request ''GET'' (User 1) ''1'')
             example_world =
           spec_verb_of Op_retrieve example_collaborators (detail_request ''GET'' (User 1) ''1'')
             example_world"
    using n handlers_pass_through_except_bulk_delete
              [of Op_retrieve example_collaborators "detail_request ''GET'' (User 1) ''1''"
                  example_world]
    by blast
  have v: "spec_verb_of Op_retrieve example_collaborators
             (detail_request ''GET'' (User 1) ''1'') example_world =
           Inr (\<lparr>status = 200, content = Some ''hello'', ETag_header = None\<rparr>, example_world)"
    by (simp add: RetrieveModelMixin_retrieve_def GenericAPIView_get_object_def
        GenericAPIView_filter_queryset_def APIView_check_object_permissions_def attrs_simps
        example_simps detail_request_def example_world_def example_db_def
        PrivateTopicDetailAPI_queryset_def PrivateTopicDetailAPI_get_serializer_class_def
        parse_pk_def digit_value_def)
  from n e v show ?thesis by simp
qed

text \<open>
  The claim as stated fails at the list endpoint's DELETE. User 1 asks to delete the
  topics 1 and 2: the handler answers 204 and user 1 has left topic 1, while the generic
  \<^verbatim>\<open>destroy\<close> on the same request raises, since the URL of the list endpoint names no
  object.
\<close>

theorem handlers_pass_through_counterexample:
  "handler_of Op_delete example_collaborators
     (list_request ''DELETE'' (User 1) (QueryDict [(''pk'', ''1''), (''pk'', ''2'')]))
     example_world
   = Inr (\<lparr>status = 204, content = None, ETag_header = None\<rparr>,
          \<lparr>db = [\<lparr>pk = 1, author = 2, participants = [], title = ''hello''\<rparr>,
                 \<lparr>pk = 2, author = 3, participants = [4], title = ''secret''\<rparr>],
            cache = []\<rparr>) \<and>
   spec_verb_of Op_delete example_collaborators
     (list_request ''DELETE'' (User 1) (QueryDict [(''pk'', ''1''), (''pk'', ''2'')]))
     example_world
   = Inl AssertionError \<and>
   handler_of Op_delete example_collaborators
     (list_request ''DELETE'' (User 1) (QueryDict [(''pk'', ''1''), (''pk'', ''2'')]))
     example_world
   \<noteq> spec_verb_of Op_delete example_collaborators
     (list_request ''DELETE'' (User 1) (QueryDict [(''pk'', ''1''), (''pk'', ''2'')]))
     example_world"
  by (simp add: PrivateTopicListAPI_delete_def DestroyModelMixin_destroy_def
      GenericAPIView_get_object_def attrs_simps example_simps list_request_def example_world_def
      example_db_def PrivateTopicListAPI_get_queryset_def getlist_def parse_pk_def
      digit_value_def example_perform_destroy_def PrivateTopicListAPI_get_current_user_def)

section \<open>The query sets\<close>




section \<open>Requests without authentication\<close>

text \<open>
  Claim C3. \<^verbatim>\<open>IsAuthenticated\<close> is among the permission classes of both views. A request
  whose user is not authenticated is answered 401 by both views whatever its method, and
  the database and the cache stay as they were. The answer is the same for every choice
  of the collaborators and for every table of handlers put in place of the views' own, so
  no handler body has run.
\<close>

theorem unauthenticated_request_is_refused:
  "\<not> is_authenticated (user r) \<Longrightarrow>
     IsAuthenticated \<in> set (permission_classes (attributes PrivateTopicListAPI)) \<and>
     IsAuthenticated \<in> set (permission_classes (attributes PrivateTopicDetailAPI)) \<and>
     APIView_dispatch c PrivateTopicListAPI r w =
       (\<lparr>status = 401, content = None, ETag_header = None\<rparr>, w) \<and>
     APIView_dispatch c PrivateTopicDetailAPI r w =
       (\<lparr>status = 401, content = None, ETag_header = None\<rparr>, w) \<and>
     APIView_dispatch c (PrivateTopicListAPI\<lparr>handlers := hs\<rparr>) r w =
       (\<lparr>status = 401, content = None, ETag_header = None\<rparr>, w) \<and>
     APIView_dispatch c (PrivateTopicDetailAPI\<lparr>handlers := hs\<rparr>) r w =
       (\<lparr>status = 401, content = None, ETag_header = None\<rparr>, w)"
  by (simp add: APIView_dispatch_def check_permissions_unauthenticated class_simps attrs_simps
      handle_exception_def)

theorem unauthenticated_request_is_refused_witness:
  "\<not> is_authenticated
       (user (list_request ''POST'' AnonymousUser (QueryDict [(''title'', ''x'')]))) \<and>
   APIView_dispatch example_collaborators PrivateTopicListAPI
     (list_request ''POST'' AnonymousUser (QueryDict [(''title'', ''x'')])) example_world =
       (\<lparr>status = 401, content = None, ETag_header = None\<rparr>, example_world) \<and>
   APIView_dispatch example_collaborators PrivateTopicDetailAPI
     (detail_request ''DELETE'' AnonymousUser ''1'') example_world =
       (\<lparr>status = 401, content = None, ETag_header = None\<rparr>, example_world)"
proof -
  have a: "\<not> is_authenticated
               (user (list_request ''POST'' AnonymousUser (QueryDict [(''title'', ''x'')])))"
    by (simp add: list_request_def)
  have b: "\<not> is_authenticated (user (detail_request ''DELETE'' AnonymousUser ''1''))"
    by (simp add: detail_request_def)
  show ?thesis
    using a unauthenticated_request_is_refused [OF a, of example_collaborators example_world]
      unauthenticated_request_is_refused [OF b, of example_collaborators example_world]
    by blast
qed

section \<open>Search, ordering and pagination\<close>

text \<open>
  Claim C6. The list view configures the search filter with the one search field
  \<^verbatim>\<open>title\<close> and the ordering filter with the fields \<^verbatim>\<open>pubdate\<close>, \<^verbatim>\<open>last_message\<close> and
  \<^verbatim>\<open>title\<close>. The body of its GET handler is the framework's \<^verbatim>\<open>list\<close>: the response is
  the framework's paginated rendering of what the two filter backends, applied by the
  framework to the requester's topics, return; the handler itself filters, orders and
  paginates nothing.
\<close>

theorem list_filtering_is_the_frameworks:
  "filter_backends PrivateTopicListAPI_attributes = [SearchFilter, OrderingFilter] \<and>
   search_fields PrivateTopicListAPI_attributes = [''title''] \<and>
   ordering_fields PrivateTopicListAPI_attributes = [''pubdate'', ''last_message'', ''title''] \<and>
   PrivateTopicListAPI_get c r w = ListModelMixin_list PrivateTopicListAPI_attributes c r w \<and>
   (request_method r = ''GET'' \<longrightarrow>
      PrivateTopicListAPI_get c r w =
        Inr (\<lparr>status = 200,
              content = Some (serialize_page c PrivateTopicSerializer
                PrivateTopicListAPI_attributes r
                (evaluate c
                   (backend_filtered OrderingFilter [''pubdate'', ''last_message'', ''title'']
                      (getlist ''ordering'' (query_params r))
                      (backend_filtered SearchFilter [''title'']
                         (getlist ''search'' (query_params r))
                         (get_private_topics_of_user (user_id (user r)))))
                   (db w))),
              ETag_header = None\<rparr>, w))"
  by (simp add: attrs_simps PrivateTopicListAPI_get_def ListModelMixin_list_def
      GenericAPIView_filter_queryset_def PrivateTopicListAPI_get_queryset_def
      PrivateTopicListAPI_get_serializer_class_def)

theorem list_filtering_is_the_frameworks_witness:
  "PrivateTopicListAPI_get example_collaborators (list_request ''GET'' (User 3) (QueryDict []))
     example_world =
     Inr (\<lparr>status = 200, content = Some ''secret; '', ETag_header = None\<rparr>, example_world)"
proof -
  let ?r = "list_request ''GET'' (User 3) (QueryDict [])"
  have g: "request_method ?r = ''GET''"
    by (simp add: list_request_def)
  have "PrivateTopicListAPI_get example_collaborators ?r example_world =
        Inr (\<lparr>status = 200,
              content = Some (serialize_page example_collaborators PrivateTopicSerializer
                PrivateTopicListAPI_attributes ?r
                (evaluate example_collaborators
                   (backend_filtered OrderingFilter [''pubdate'', ''last_message'', ''title'']
                      (getlist ''ordering'' (query_params ?r))
                      (backend_filtered SearchFilter [''title'']
                         (getlist ''search'' (query_params ?r))
                         (get_private_topics_of_user (user_id (user ?r)))))
                   (db example_world))),
              ETag_header = None\<rparr>, example_world)"
    using list_filtering_is_the_frameworks [of example_collaborators ?r example_world] g
    by blast
  then show ?thesis
    by (simp add: example_simps list_request_def example_world_def example_db_def getlist_def)
qed

section \<open>Deleting a list of topics\<close>







section \<open>Serializer classes\<close>

text \<open>
  Claim C10. \<^verbatim>\<open>get_serializer_class\<close> is partial over the HTTP methods. The list view
  gives \<^verbatim>\<open>PrivateTopicSerializer\<close> for GET and \<^verbatim>\<open>PrivateTopicCreateSerializer\<close> for POST, the
  detail view \<^verbatim>\<open>PrivateTopicSerializer\<close> for GET and \<^verbatim>\<open>PrivateTopicUpdateSerializer\<close> for
  PUT, and for every other method both give \<^verbatim>\<open>None\<close>. The list view's DELETE runs with
  no serializer class: \<^verbatim>\<open>get_serializer_class\<close> gives \<^verbatim>\<open>None\<close> for it, the request is
  answered all the same (204 when its body is a form, 500 when it is not), and the answer
  is the same whatever the serializers are.
\<close>

theorem get_serializer_class_is_partial:
  "(request_method r = ''GET'' \<longrightarrow>
      get_serializer_class PrivateTopicListAPI_attributes r = Some PrivateTopicSerializer \<and>
      get_serializer_class PrivateTopicDetailAPI_attributes r = Some PrivateTopicSerializer) \<and>
   (request_method r = ''POST'' \<longrightarrow>
      get_serializer_class PrivateTopicListAPI_attributes r = Some PrivateTopicCreateSerializer) \<and>
   (request_method r = ''PUT'' \<longrightarrow>
      get_serializer_class PrivateTopicDetailAPI_attributes r = Some PrivateTopicUpdateSerializer) \<and>
   (request_method r \<noteq> ''GET'' \<and> request_method r \<noteq> ''POST'' \<longrightarrow>
      get_serializer_class PrivateTopicListAPI_attributes r = None) \<and>
   (request_method r \<noteq> ''GET'' \<and> request_method r \<noteq> ''PUT'' \<longrightarrow>
      get_serializer_class PrivateTopicDetailAPI_attributes r = None) \<and>
   (is_authenticated (user r) \<and> request_method r = ''DELETE'' \<longrightarrow>
      get_serializer_class PrivateTopicListAPI_attributes r = None \<and>
      status (fst (APIView_dispatch c PrivateTopicListAPI r w)) =
        (case request_data r of QueryDict form \<Rightarrow> 204 | Dict d \<Rightarrow> 500) \<and>
      APIView_dispatch
        (c\<lparr>serialize := s1, serialize_page := s2, serializer_create := s3,
           serializer_update := s4\<rparr>) PrivateTopicListAPI r w =
      APIView_dispatch c PrivateTopicListAPI r w)"
  by (simp add: attrs_simps PrivateTopicListAPI_get_serializer_class_def
      PrivateTopicDetailAPI_get_serializer_class_def APIView_dispatch_def
      check_permissions_list_authenticated class_simps decorated_def
      PrivateTopicListAPI_delete_def PrivateTopicListAPI_get_queryset_def handle_exception_def
      split: request_body.splits)

theorem get_serializer_class_is_partial_witness:
  "get_serializer_class PrivateTopicListAPI_attributes
     (list_request ''GET'' (User 1) (QueryDict [])) = Some PrivateTopicSerializer \<and>
   get_serializer_class PrivateTopicListAPI_attributes
     (list_request ''POST'' (User 1) (QueryDict [])) = Some PrivateTopicCreateSerializer \<and>
   get_serializer_class PrivateTopicDetailAPI_attributes (detail_request ''PUT'' (User 1) ''1'') =
     Some PrivateTopicUpdateSerializer \<and>
   get_serializer_class PrivateTopicDetailAPI_attributes (detail_request ''PATCH'' (User 1) ''1'') =
     None \<and>
   get_serializer_class PrivateTopicListAPI_attributes
     (list_request ''DELETE'' (User 1) (QueryDict [(''pk'', ''1'')])) = None \<and>
   status (fst (APIView_dispatch example_collaborators PrivateTopicListAPI
                  (list_request ''DELETE'' (User 1) (QueryDict [(''pk'', ''1'')]))
                  example_world)) = 204"
proof -
  have g: "request_method (list_request ''GET'' (User 1) (QueryDict [])) = ''GET''"
    and p: "request_method (list_request ''POST'' (User 1) (QueryDict [])) = ''POST''"
    and u: "request_method (detail_request ''PUT'' (User 1) ''1'') = ''PUT''"
    and h: "request_method (detail_request ''PATCH'' (User 1) ''1'') = ''PATCH''"
    and d: "request_method (list_request ''DELETE'' (User 1) (QueryDict [(''pk'', ''1'')])) =
              ''DELETE''"
    and a: "is_authenticated
              (user (list_request ''DELETE'' (User 1) (QueryDict [(''pk'', ''1'')])))"
    and f: "request_data (list_request ''DELETE'' (User 1) (QueryDict [(''pk'', ''1'')])) =
              QueryDict [(''pk'', ''1'')]"
    by (simp_all add: list_request_def detail_request_def)
  have f1: "get_serializer_class PrivateTopicListAPI_attributes
             (list_request ''GET'' (User 1) (QueryDict [])) = Some PrivateTopicSerializer"
    using get_serializer_class_is_partial
            [where r = "list_request ''GET'' (User 1) (QueryDict [])"
               and c = example_collaborators and w = example_world]
    by (simp add: g)
  have f2: "get_serializer_class PrivateTopicListAPI_attributes
             (list_request ''POST'' (User 1) (QueryDict [])) = Some PrivateTopicCreateSerializer"
    using get_serializer_class_is_partial
            [where r = "list_request ''POST'' (User 1) (QueryDict [])"
               and c = example_collaborators and w = example_world]
    by (simp add: p)
  have f3: "get_serializer_class PrivateTopicDetailAPI_attributes
             (detail_request ''PUT'' (User 1) ''1'') = Some PrivateTopicUpdateSerializer"
    using get_serializer_class_is_partial
            [where r = "detail_request ''PUT'' (User 1) ''1''" and c = example_collaborators
               and w = example_world]
    by (simp add: u)
  have f4: "get_serializer_class PrivateTopicDetailAPI_attributes
             (detail_request ''PATCH'' (User 1) ''1'') = None"
    using get_serializer_class_is_partial
            [where r = "detail_request ''PATCH'' (User 1) ''1''" and c = example_collaborators
               and w = example_world]
    by (simp add: h)
  have f5: "get_serializer_class PrivateTopicListAPI_attributes
             (list_request ''DELETE'' (User 1) (QueryDict [(''pk'', ''1'')])) = None \<and>
           status (fst (APIView_dispatch example_collaborators PrivateTopicListAPI
                    (list_request ''DELETE'' (User 1) (QueryDict [(''pk'', ''1'')]))
                    example_world)) = 204"
    using get_serializer_class_is_partial
            [where r = "list_request ''DELETE'' (User 1) (QueryDict [(''pk'', ''1'')])"
               and c = example_collaborators and w = example_world]
    by (simp add: d a f)
  from f1 f2 f3 f4 f5 show ?thesis by simp
qed

section \<open>Cache keys\<close>


lemma bits_obj_key_func:
  "bits c obj_key_func =
     [(''format'', FormatKeyBit),
      (''language'', LanguageKeyBit),
      (''retrieve_sql_query'', RetrieveSqlQueryKeyBit),
      (''unique_view_id'', UniqueViewIdKeyBit)] @
     filter (\<lambda>nb. fst nb \<notin> {''format'', ''language'', ''retrieve_sql_query'', ''unique_view_id''})
       (DefaultKeyConstructor c)"
proof -
  have "(\<lambda>nb::string \<times> key_bit. map_of DetailKeyConstructor (fst nb) = None) =
        (\<lambda>nb. fst nb \<notin> {''format'', ''language'', ''retrieve_sql_query'', ''unique_view_id''})"
    by (auto simp: fun_eq_iff DetailKeyConstructor_def)
  then show ?thesis
    by (simp add: bits_def obj_key_func_def)
       (simp add: DetailKeyConstructor_def)
qed

lemma example_detail_key:
  "get_key example_collaborators obj_key_func PrivateTopicDetailAPI_attributes ''GET''
     (detail_request ''GET'' u ''1'') =
   [(''format'', Text ''json''), (''language'', Text ''fr''),
    (''retrieve_sql_query'', Sql (lookup ''pk'' ''1'' objects_all)),
    (''unique_view_id'', Text ''zds.mp.api.views.PrivateTopicDetailAPI''),
    (''unique_method_id'', Text ''zds.mp.api.views.PrivateTopicDetailAPI.GET'')]"
  by (simp add: get_key_def bits_obj_key_func example_simps attrs_simps detail_request_def
      getlist_def GenericAPIView_filter_queryset_def PrivateTopicDetailAPI_queryset_def)



section \<open>The decorated handlers\<close>

lemma decorated_etag_cache:
  "decorated v m \<lparr>decorators = [etag kc, cache_response kc], body = b\<rparr> c r w = Inr (resp, w') \<Longrightarrow>
   ETag_header resp = Some (get_key c kc v m r) \<and>
   (get_key c kc v m r \<notin> set (if_none_match r) \<longrightarrow>
      map_of (cache w') (get_key c kc v m r) \<noteq> None)"
  by (auto simp: decorated_def split: if_splits option.splits sum.splits)

text \<open>
  The first GET of topic 1 by its author or by its participant, on the example world:
  the topic is rendered, the response carries the key as its ETag, and the rendering is
  stored in the cache under the key.
\<close>

lemma example_retrieve_body:
  "u = User 1 \<or> u = User 2 \<Longrightarrow>
   PrivateTopicDetailAPI_get example_collaborators (detail_request ''GET'' u ''1'')
     example_world =
   Inr (\<lparr>status = 200, content = Some ''hello'', ETag_header = None\<rparr>, example_world)"
  by (auto simp: PrivateTopicDetailAPI_get_def RetrieveModelMixin_retrieve_def
      GenericAPIView_get_object_def GenericAPIView_filter_queryset_def
      APIView_check_object_permissions_def attrs_simps example_simps detail_request_def
      example_world_def example_db_def PrivateTopicDetailAPI_queryset_def
      PrivateTopicDetailAPI_get_serializer_class_def parse_pk_def digit_value_def)

lemma example_first_retrieve:
  assumes "u = User 1 \<or> u = User 2"
  shows "APIView_dispatch example_collaborators PrivateTopicDetailAPI
     (detail_request ''GET'' u ''1'') example_world =
   (\<lparr>status = 200, content = Some ''hello'',
     ETag_header = Some
       [(''format'', Text ''json''), (''language'', Text ''fr''),
        (''retrieve_sql_query'', Sql (lookup ''pk'' ''1'' objects_all)),
        (''unique_view_id'', Text ''zds.mp.api.views.PrivateTopicDetailAPI''),
        (''unique_method_id'', Text ''zds.mp.api.views.PrivateTopicDetailAPI.GET'')]\<rparr>,
    \<lparr>db = example_db,
      cache =
        [([(''format'', Text ''json''), (''language'', Text ''fr''),
           (''retrieve_sql_query'', Sql (lookup ''pk'' ''1'' objects_all)),
           (''unique_view_id'', Text ''zds.mp.api.views.PrivateTopicDetailAPI''),
           (''unique_method_id'', Text ''zds.mp.api.views.PrivateTopicDetailAPI.GET'')],
          \<lparr>status = 200, content = Some ''hello'', ETag_header = None\<rparr>)]\<rparr>)"
proof -
  have m: "request_method (detail_request ''GET'' u ''1'') = ''GET''"
    and n: "if_none_match (detail_request ''GET'' u ''1'') = []"
    by (simp_all add: detail_request_def)
  have a: "is_authenticated (user (detail_request ''GET'' u ''1''))"
    using assms by (auto simp: detail_request_def)
  note b = example_retrieve_body [OF assms]
  show ?thesis
    by (simp add: APIView_dispatch_def check_permissions_detail_authenticated a m n class_simps
        decorated_def example_detail_key b [unfolded example_world_def] example_simps
        example_world_def)
qed

lemma example_decorated_retrieve:
  "decorated PrivateTopicDetailAPI_attributes ''GET''
     \<lparr>decorators = [etag obj_key_func, cache_response obj_key_func],
      body = PrivateTopicDetailAPI_get\<rparr>
     example_collaborators (detail_request ''GET'' (User 1) ''1'') example_world =
   Inr (APIView_dispatch example_collaborators PrivateTopicDetailAPI
          (detail_request ''GET'' (User 1) ''1'') example_world)"
proof -
  have m: "request_method (detail_request ''GET'' (User 1) ''1'') = ''GET''"
    and a: "is_authenticated (user (detail_request ''GET'' (User 1) ''1''))"
    and n: "if_none_match (detail_request ''GET'' (User 1) ''1'') = []"
    by (simp_all add: detail_request_def)
  have b: "PrivateTopicDetailAPI_get example_collaborators
             (detail_request ''GET'' (User 1) ''1'') example_world =
           Inr (\<lparr>status = 200, content = Some ''hello'', ETag_header = None\<rparr>, example_world)"
    by (rule example_retrieve_body) simp
  show ?thesis
    by (simp add: APIView_dispatch_def check_permissions_detail_authenticated a m n class_simps
        decorated_def example_detail_key b [unfolded example_world_def] example_simps
        example_world_def)
qed

text \<open>
  Claim C7. In each view the GET handler, and no other handler, is decorated, with
  \<^verbatim>\<open>etag\<close> and \<^verbatim>\<open>cache_response\<close>, and both decorators of a view are given the same key
  constructor (\<^verbatim>\<open>list_key_func\<close>, \<^verbatim>\<open>obj_key_func\<close>). So for every request the key of the
  ETag is the key of the cache entry: when a decorated GET handler returns a response,
  the response's ETag is that key, and unless the request's \<^verbatim>\<open>If-None-Match\<close> names the
  key the cache holds an entry under it.
\<close>

theorem get_handlers_share_one_key:
  "map_option decorators (handlers PrivateTopicListAPI n) =
     (if n = ''GET'' then Some [etag list_key_func, cache_response list_key_func]
      else if n = ''POST'' \<or> n = ''DELETE'' then Some [] else None) \<and>
   map_option decorators (handlers PrivateTopicDetailAPI n) =
     (if n = ''GET'' then Some [etag obj_key_func, cache_response obj_key_func]
      else if n = ''PUT'' \<or> n = ''DELETE'' then Some [] else None) \<and>
   decorator_key c v m r (etag list_key_func) =
     decorator_key c v m r (cache_response list_key_func) \<and>
   decorator_key c v m r (etag obj_key_func) =
     decorator_key c v m r (cache_response obj_key_func) \<and>
   ((handlers PrivateTopicListAPI ''GET'' = Some h \<and> kc = list_key_func \<or>
     handlers PrivateTopicDetailAPI ''GET'' = Some h \<and> kc = obj_key_func) \<and>
    decorated v m h c r w = Inr (resp, w') \<longrightarrow>
      ETag_header resp = Some (get_key c kc v m r) \<and>
      (get_key c kc v m r \<notin> set (if_none_match r) \<longrightarrow>
         map_of (cache w') (get_key c kc v m r) \<noteq> None))"
proof -
  have f1: "map_option decorators (handlers PrivateTopicListAPI n) =
     (if n = ''GET'' then Some [etag list_key_func, cache_response list_key_func]
      else if n = ''POST'' \<or> n = ''DELETE'' then Some [] else None)"
    by (simp add: PrivateTopicListAPI_def)
  have f2: "map_option decorators (handlers PrivateTopicDetailAPI n) =
     (if n = ''GET'' then Some [etag obj_key_func, cache_response obj_key_func]
      else if n = ''PUT'' \<or> n = ''DELETE'' then Some [] else None)"
    by (simp add: PrivateTopicDetailAPI_def)
  have f3: "(handlers PrivateTopicListAPI ''GET'' = Some h \<and> kc = list_key_func \<or>
     handlers PrivateTopicDetailAPI ''GET'' = Some h \<and> kc = obj_key_func) \<and>
    decorated v m h c r w = Inr (resp, w') \<longrightarrow>
      ETag_header resp = Some (get_key c kc v m r) \<and>
      (get_key c kc v m r \<notin> set (if_none_match r) \<longrightarrow>
         map_of (cache w') (get_key c kc v m r) \<noteq> None)"
    using decorated_etag_cache [of v m kc _ c r w resp w']
    by (auto simp: class_simps)
  from f1 f2 f3 show ?thesis by simp
qed

text \<open>
  In the instance: the first GET of topic 1 by user 1 is answered by the decorated
  handler; the response's ETag is the key, and the cache holds an entry under the key.
\<close>

theorem get_handlers_share_one_key_witness:
  "decorated PrivateTopicDetailAPI_attributes ''GET''
     \<lparr>decorators = [etag obj_key_func, cache_response obj_key_func],
      body = PrivateTopicDetailAPI_get\<rparr>
     example_collaborators (detail_request ''GET'' (User 1) ''1'') example_world =
     Inr (APIView_dispatch example_collaborators PrivateTopicDetailAPI
            (detail_request ''GET'' (User 1) ''1'') example_world) \<and>
   ETag_header (fst (APIView_dispatch example_collaborators PrivateTopicDetailAPI
                       (detail_request ''GET'' (User 1) ''1'') example_world)) =
     Some (get_key example_collaborators obj_key_func PrivateTopicDetailAPI_attributes ''GET''
             (detail_request ''GET'' (User 1) ''1'')) \<and>
   map_of (cache (snd (APIView_dispatch example_collaborators PrivateTopicDetailAPI
                         (detail_request ''GET'' (User 1) ''1'') example_world)))
     (get_key example_collaborators obj_key_func PrivateTopicDetailAPI_attributes ''GET''
        (detail_request ''GET'' (User 1) ''1'')) \<noteq> None"
proof -
  let ?r = "detail_request ''GET'' (User 1) ''1''"
  let ?h = "\<lparr>decorators = [etag obj_key_func, cache_response obj_key_func],
             body = PrivateTopicDetailAPI_get
               :: (private_topic list, private_topic) view_method\<rparr>"
  have g: "handlers PrivateTopicDetailAPI ''GET'' = Some ?h"
    by (simp add: class_simps)
  have n: "get_key example_collaborators obj_key_func PrivateTopicDetailAPI_attributes ''GET'' ?r
              \<notin> set (if_none_match ?r)"
    by (simp add: detail_request_def)
  obtain resp w' where p: "APIView_dispatch example_collaborators PrivateTopicDetailAPI ?r
                             example_world = (resp, w')"
    by (cases "APIView_dispatch example_collaborators PrivateTopicDetailAPI ?r example_world")
  have d: "decorated PrivateTopicDetailAPI_attributes ''GET'' ?h example_collaborators ?r
             example_world = Inr (resp, w')"
    using example_decorated_retrieve p by simp
  have "ETag_header resp =
          Some (get_key example_collaborators obj_key_func PrivateTopicDetailAPI_attributes
                  ''GET'' ?r) \<and>
        map_of (cache w')
          (get_key example_collaborators obj_key_func PrivateTopicDetailAPI_attributes
             ''GET'' ?r) \<noteq> None"
    using get_handlers_share_one_key
            [where c = example_collaborators and h = ?h and kc = obj_key_func
               and v = PrivateTopicDetailAPI_attributes and m = "''GET''" and r = ?r
               and w = example_world and resp = resp and w' = w' and n = "''GET''"]
          g d n
    by blast
  with d p show ?thesis by simp
qed

section \<open>Who decides\<close>




section \<open>A topic of others on the detail endpoint\<close>

lemma detail_refuses_a_non_participant:
  assumes "is_authenticated (user r)"
    and "IsParticipant_has_permission c PrivateTopicDetailAPI_attributes r"
    and "map_of (url_kwargs r) ''pk'' = Some p"
    and "evaluate c (lookup ''pk'' p objects_all) (db w) = [obj]"
    and "\<not> IsParticipant_has_object_permission c PrivateTopicDetailAPI_attributes r obj"
    and "request_method r = ''PUT'' \<or> request_method r = ''DELETE'' \<or>
         request_method r = ''GET'' \<and>
         get_key c obj_key_func PrivateTopicDetailAPI_attributes ''GET'' r
           \<notin> set (if_none_match r) \<and>
         map_of (cache w) (get_key c obj_key_func PrivateTopicDetailAPI_attributes ''GET'' r) =
           None"
  shows "APIView_dispatch c PrivateTopicDetailAPI r w =
           (\<lparr>status = 403, content = None, ETag_header = None\<rparr>, w)"
  using assms
  by (auto simp: APIView_dispatch_def check_permissions_detail_authenticated class_simps
      decorated_def PrivateTopicDetailAPI_get_def PrivateTopicDetailAPI_put_def
      PrivateTopicDetailAPI_delete_def RetrieveModelMixin_retrieve_def
      UpdateModelMixin_update_def DestroyModelMixin_destroy_def get_object_detail
      handle_exception_def)

lemma detail_answers_404_for_no_topic:
  assumes "is_authenticated (user r)"
    and "IsParticipant_has_permission c PrivateTopicDetailAPI_attributes r"
    and "map_of (url_kwargs r) ''pk'' = Some p"
    and "evaluate c (lookup ''pk'' p objects_all) (db w) = []"
    and "request_method r = ''PUT'' \<or> request_method r = ''DELETE'' \<or>
         request_method r = ''GET'' \<and>
         get_key c obj_key_func PrivateTopicDetailAPI_attributes ''GET'' r
           \<notin> set (if_none_match r) \<and>
         map_of (cache w) (get_key c obj_key_func PrivateTopicDetailAPI_attributes ''GET'' r) =
           None"
  shows "APIView_dispatch c PrivateTopicDetailAPI r w =
           (\<lparr>status = 404, content = None, ETag_header = None\<rparr>, w)"
  using assms
  by (auto simp: APIView_dispatch_def check_permissions_detail_authenticated class_simps
      decorated_def PrivateTopicDetailAPI_get_def PrivateTopicDetailAPI_put_def
      PrivateTopicDetailAPI_delete_def RetrieveModelMixin_retrieve_def
      UpdateModelMixin_update_def DestroyModelMixin_destroy_def get_object_detail_missing
      handle_exception_def)

text \<open>
  Claim C9 does not hold of the code for GET. The key of the detail view's cache names
  the format, the language, the query and the view, and not the user. An authenticated
  GET whose key the cache holds is answered with the cached response: the topic is not
  looked up and \<^verbatim>\<open>IsParticipant\<close> is not asked about it, so the answer is the same for a
  requester who participates in the topic and for one who does not, and it is not 403.
\<close>

theorem cached_retrieve_skips_object_permission:
  "is_authenticated (user r) \<Longrightarrow>
   IsParticipant_has_permission c PrivateTopicDetailAPI_attributes r \<Longrightarrow>
   request_method r = ''GET'' \<Longrightarrow>
   get_key c obj_key_func PrivateTopicDetailAPI_attributes ''GET'' r \<notin> set (if_none_match r) \<Longrightarrow>
   map_of (cache w) (get_key c obj_key_func PrivateTopicDetailAPI_attributes ''GET'' r) =
     Some cached \<Longrightarrow>
   APIView_dispatch c PrivateTopicDetailAPI r w =
     (cached\<lparr>ETag_header :=
               Some (get_key c obj_key_func PrivateTopicDetailAPI_attributes ''GET'' r)\<rparr>, w)"
  by (simp add: APIView_dispatch_def check_permissions_detail_authenticated class_simps
      decorated_def)

text \<open>
  In the instance: user 3 does not belong to topic 1. On the example world user 3's GET
  of topic 1 is answered 403. After user 1 has read topic 1, the same GET of user 3 is
  answered 200 with the topic.
\<close>

theorem cached_retrieve_skips_object_permission_witness:
  "\<not> IsParticipant_has_object_permission example_collaborators PrivateTopicDetailAPI_attributes
       (detail_request ''GET'' (User 3) ''1'')
       \<lparr>pk = 1, author = 1, participants = [2], title = ''hello''\<rparr> \<and>
   APIView_dispatch example_collaborators PrivateTopicDetailAPI
     (detail_request ''GET'' (User 3) ''1'') example_world =
     (\<lparr>status = 403, content = None, ETag_header = None\<rparr>, example_world) \<and>
   fst (APIView_dispatch example_collaborators PrivateTopicDetailAPI
          (detail_request ''GET'' (User 3) ''1'')
          (snd (APIView_dispatch example_collaborators PrivateTopicDetailAPI
                  (detail_request ''GET'' (User 1) ''1'') example_world))) =
     \<lparr>status = 200, content = Some ''hello'',
      ETag_header = Some
        [(''format'', Text ''json''), (''language'', Text ''fr''),
         (''retrieve_sql_query'', Sql (lookup ''pk'' ''1'' objects_all)),
         (''unique_view_id'', Text ''zds.mp.api.views.PrivateTopicDetailAPI''),
         (''unique_method_id'', Text ''zds.mp.api.views.PrivateTopicDetailAPI.GET'')]\<rparr>"
proof -
  let ?r = "detail_request ''GET'' (User 3) ''1''"
  let ?w = "snd (APIView_dispatch example_collaborators PrivateTopicDetailAPI
                  (detail_request ''GET'' (User 1) ''1'') example_world)"
  have a: "is_authenticated (user ?r)"
    and v: "IsParticipant_has_permission example_collaborators PrivateTopicDetailAPI_attributes ?r"
    and m: "request_method ?r = ''GET''"
    and k: "map_of (url_kwargs ?r) ''pk'' = Some ''1''"
    and n: "get_key example_collaborators obj_key_func PrivateTopicDetailAPI_attributes ''GET'' ?r
              \<notin> set (if_none_match ?r)"
    and o: "\<not> IsParticipant_has_object_permission example_collaborators
                PrivateTopicDetailAPI_attributes ?r
                \<lparr>pk = 1, author = 1, participants = [2], title = ''hello''\<rparr>"
    by (simp_all add: detail_request_def example_simps)
  have e: "map_of (cache example_world)
             (get_key example_collaborators obj_key_func PrivateTopicDetailAPI_attributes
                ''GET'' ?r) = None"
    by (simp add: example_world_def)
  have f1: "APIView_dispatch example_collaborators PrivateTopicDetailAPI ?r example_world =
             (\<lparr>status = 403, content = None, ETag_header = None\<rparr>, example_world)"
    using detail_refuses_a_non_participant [OF a v k example_lookup_topic_1 o] m n e
    by simp
  have u: "User 1 = User 1 \<or> User 1 = User 2"
    by simp
  have h: "map_of (cache ?w)
             (get_key example_collaborators obj_key_func PrivateTopicDetailAPI_attributes
                ''GET'' ?r) =
           Some \<lparr>status = 200, content = Some ''hello'', ETag_header = None\<rparr>"
    by (simp add: example_first_retrieve [OF u] example_detail_key)
  have f2: "fst (APIView_dispatch example_collaborators PrivateTopicDetailAPI ?r ?w) =
           \<lparr>status = 200, content = Some ''hello'',
            ETag_header = Some
              [(''format'', Text ''json''), (''language'', Text ''fr''),
               (''retrieve_sql_query'', Sql (lookup ''pk'' ''1'' objects_all)),
               (''unique_view_id'', Text ''zds.mp.api.views.PrivateTopicDetailAPI''),
               (''unique_method_id'', Text ''zds.mp.api.views.PrivateTopicDetailAPI.GET'')]\<rparr>"
    using cached_retrieve_skips_object_permission [OF a v m n h]
    by (simp add: example_detail_key)
  from o f1 f2 show ?thesis by simp
qed

end
